theory Spec2Isabelle
  imports Complex_Main
begin

section \<open>Data model of the screw planner\<close>

text \<open>
  The development embeds \<^verbatim>\<open>src/screw_planner.cpp\<close> (class \<^verbatim>\<open>ScrewPlanner\<close>).
  A \<^verbatim>\<open>std::vector<double>\<close> is a list of reals: a real stands for the finite
  double of that value, and the model has one zero. The source computes with doubles in
  two places. The division is \<open>double_div\<close>, which writes out the IEEE results for a
  zero divisor and leaves the quotient of a non-zero divisor unrounded. The tolerance
  test at the end of the extraction is modelled with the rounding of the subtraction, the
  double value of the literal \<^verbatim>\<open>0.01\<close> and the IEEE comparison.
\<close>

type_synonym config = "real list"

text \<open>The result codes that \<^verbatim>\<open>plan\<close> returns.\<close>

datatype Result = SUCCESS | INITIALIZATION_FAIL | NO_IK_SOLUTION | PLANNING_FAIL

text \<open>
  The value of a double operation: finite, or one of the IEEE special values. In
  \<open>double_div\<close> the sign of the infinity follows the dividend, as it does for the
  divisor \<^verbatim>\<open>+0.0\<close>; the divisor \<^verbatim>\<open>-0.0\<close> is not a value of the model.
\<close>

datatype double = Finite real | PlusInfinity | MinusInfinity | NaN

definition double_div :: "real \<Rightarrow> real \<Rightarrow> double" where
  "double_div x y =
     (if y \<noteq> 0 then Finite (x / y)
      else if x = 0 then NaN
      else if 0 < x then PlusInfinity
      else MinusInfinity)"

text \<open>A fraction in the closed unit interval; no special value is.\<close>

fun in_unit_interval :: "double \<Rightarrow> bool" where
  "in_unit_interval (Finite r) = (0 \<le> r \<and> r \<le> 1)"
| "in_unit_interval PlusInfinity = False"
| "in_unit_interval MinusInfinity = False"
| "in_unit_interval NaN = False"

text \<open>
  The literal \<^verbatim>\<open>0.01\<close>: the double nearest to one hundredth, which is the fraction
  below with denominator \<open>2 ^ 59\<close>, a little above one hundredth.
\<close>

definition double_0_01 :: real where
  "double_0_01 = 5764607523034235 / 576460752303423488"

text \<open>\<^verbatim>\<open>fabs\<close> on a double.\<close>

fun double_fabs :: "double \<Rightarrow> double" where
  "double_fabs (Finite r) = Finite \<bar>r\<bar>"
| "double_fabs PlusInfinity = PlusInfinity"
| "double_fabs MinusInfinity = PlusInfinity"
| "double_fabs NaN = NaN"

text \<open>
  The comparison \<^verbatim>\<open>x > c\<close> of a double with a finite double: false when \<open>x\<close> is
  not a number.
\<close>

fun double_greater :: "double \<Rightarrow> real \<Rightarrow> bool" where
  "double_greater (Finite r) c = (c < r)"
| "double_greater PlusInfinity c = True"
| "double_greater MinusInfinity c = False"
| "double_greater NaN c = False"

subsection \<open>Robot model\<close>

text \<open>The joint types of \<^verbatim>\<open>moveit::core::JointModel\<close>.\<close>

datatype JointType = UNKNOWN | REVOLUTE | PRISMATIC | PLANAR | FLOATING | FIXED

record VariableBounds =
  min_position :: real
  max_position :: real
  position_bounded :: bool

record JointModel =
  getName :: string
  getType :: JointType
  getVariableBounds :: "string \<Rightarrow> VariableBounds"

record JointModelGroup =
  getActiveJointModels :: "JointModel list"
  getVariableCount :: nat
  getVariableNames :: "string list"

subsection \<open>Requests, responses, states\<close>

text \<open>
  Poses and transforms are values of an abstract type \<open>'p\<close>, the screw message of an
  abstract type \<open>'s\<close>: the planner only hands them to its collaborators.
\<close>

record ('p, 's) APPlanningRequest =
  screw_msg :: 's
  theta :: real
  ee_frame_name :: string
  start_joint_state :: config
  start_pose :: 'p

text \<open>
  The response; \<open>joint_names\<close> and \<open>points\<close> are the two fields of
  \<^verbatim>\<open>joint_trajectory\<close>, a point being its \<^verbatim>\<open>positions\<close> vector (the only field
  of a trajectory point that the planner fills).
\<close>

record APPlanningResponse =
  joint_names :: "string list"
  points :: "config list"
  percentage_complete :: double
  trajectory_is_valid :: bool
  path_length :: real

text \<open>
  A state of the compound space: component 0 is the one-dimensional screw space, read
  as \<^verbatim>\<open>screw_state[0]\<close>, component 1 the joint space.
\<close>

record CompoundState =
  screw_state :: real
  robot_state :: config

text \<open>The two real-vector spaces, each a list of (low, high) bounds, one per dimension.\<close>

record StateSpace =
  screw_space :: "(real \<times> real) list"
  joint_space :: "(real \<times> real) list"

subsection \<open>Collaborators\<close>

text \<open>
  Everything the planner calls outside this file: the kinematic state of type \<open>'k\<close>
  (which carries its random generator, so that re-seeding is a function), the geometry
  that turns the screw and the start transform into the goal pose, the OMPL planner
  and path operations, and the validity checker installed for the call.
  \<open>setFromIK\<close> returns its success flag together with the state it leaves behind.
  The last field is the arithmetic of the platform: \<open>roundToDouble\<close> takes the exact
  result of an operation on doubles to the double that the operation returns (the
  nearest double, or an infinity on overflow); nothing is assumed about it.
\<close>

record ('k, 'p, 's) Collaborators =
  setToDefaultValues :: 'k
  setJointGroupPositions :: "config \<Rightarrow> 'k \<Rightarrow> 'k"
  getFrameTransform :: "'k \<Rightarrow> string \<Rightarrow> 'p"
  setFromIK :: "'p \<Rightarrow> 'k \<Rightarrow> bool \<times> 'k"
  copyJointGroupPositions :: "'k \<Rightarrow> config"
  setToRandomPositions :: "'k \<Rightarrow> 'k"
  screwGoalPose :: "'s \<Rightarrow> real \<Rightarrow> 'p \<Rightarrow> 'p"
  withinDuplicateThreshold :: "config \<Rightarrow> config \<Rightarrow> bool"
  solve :: "StateSpace \<Rightarrow> CompoundState list \<Rightarrow> CompoundState list \<Rightarrow> CompoundState list option"
  simplifySolution :: "CompoundState list \<Rightarrow> CompoundState list"
  interpolate :: "CompoundState list \<Rightarrow> CompoundState list"
  isValid :: "CompoundState \<Rightarrow> bool"
  solution_length :: "CompoundState list \<Rightarrow> real"
  roundToDouble :: "real \<Rightarrow> double"

text \<open>
  The members of \<^verbatim>\<open>ScrewPlanner\<close> that one call of \<^verbatim>\<open>plan\<close> writes and reads;
  the suffix \<open>_m\<close> stands for the trailing underscore of the member names, and the
  fields of \<open>VariableBounds\<close> drop theirs.
\<close>

record ('k, 'p) ScrewPlanner =
  kinematic_state_m :: 'k
  passed_start_config_m :: bool
  start_pose_m :: 'p
  goal_pose_m :: 'p

text \<open>\<^verbatim>\<open>size_t\<close> arithmetic wraps at 64 bits.\<close>

definition size_t_wrap :: "nat \<Rightarrow> nat" where
  "size_t_wrap n = n mod 2 ^ 64"

section \<open>State-space construction\<close>

text \<open>The macro \<^verbatim>\<open>M_PI\<close> of \<^verbatim>\<open>math.h\<close>: the double nearest to \<open>\<pi>\<close>, as a fraction.\<close>

definition M_PI :: real where
  "M_PI = 884279719003555 / 281474976710656"

text \<open>
  The loop of \<^verbatim>\<open>setupStateSpace\<close> over the active joints; the accumulator is the
  list of joint-space dimensions added so far, \<open>None\<close> is \<^verbatim>\<open>return false\<close>.
\<close>

fun add_joint_dimensions :: "JointModel list \<Rightarrow> (real \<times> real) list \<Rightarrow> (real \<times> real) list option" where
  "add_joint_dimensions [] dims = Some dims"
| "add_joint_dimensions (joint # rest) dims =
     (let jt = getType joint in
      if jt = PLANAR then
        add_joint_dimensions rest (dims @ [(- 1000, 1000), (- 1000, 1000), (- M_PI, M_PI)])
      else if jt = REVOLUTE \<or> jt = PRISMATIC then
        (let bounds = getVariableBounds joint (getName joint) in
         if position_bounded bounds then
           add_joint_dimensions rest (dims @ [(min_position bounds, max_position bounds)])
         else None)
      else add_joint_dimensions rest dims)"

definition setupStateSpace :: "JointModelGroup \<Rightarrow> ('p, 's) APPlanningRequest \<Rightarrow> StateSpace option" where
  "setupStateSpace joint_model_group req =
     (case add_joint_dimensions (getActiveJointModels joint_model_group) [] of
        None \<Rightarrow> None
      | Some dims \<Rightarrow> Some \<lparr>screw_space = [(0, theta req)], joint_space = dims\<rparr>)"

section \<open>Start transform and space parameters\<close>

definition getStartTF ::
  "('k, 'p, 's) Collaborators \<Rightarrow> JointModelGroup \<Rightarrow> ('p, 's) APPlanningRequest \<Rightarrow>
   ('k, 'p) ScrewPlanner \<Rightarrow> 'p \<times> ('k, 'p) ScrewPlanner" where
  "getStartTF env joint_model_group req pl =
     (if length (start_joint_state req) = getVariableCount joint_model_group then
        (let k = setJointGroupPositions env (start_joint_state req) (kinematic_state_m pl);
             tf_msg = getFrameTransform env k (ee_frame_name req)
         in (tf_msg, pl\<lparr>kinematic_state_m := k, passed_start_config_m := True, start_pose_m := tf_msg\<rparr>))
      else
        (let tf_msg = start_pose req
         in (tf_msg, pl\<lparr>passed_start_config_m := False, start_pose_m := tf_msg\<rparr>)))"

text \<open>
  \<^verbatim>\<open>setSpaceParameters\<close> always returns true; besides the members below it only
  attaches string parameters to the space, which nothing in this file reads back.
\<close>

definition setSpaceParameters ::
  "('k, 'p, 's) Collaborators \<Rightarrow> JointModelGroup \<Rightarrow> ('p, 's) APPlanningRequest \<Rightarrow>
   ('k, 'p) ScrewPlanner \<Rightarrow> bool \<times> ('k, 'p) ScrewPlanner" where
  "setSpaceParameters env joint_model_group req pl =
     (let (tf_msg, pl1) = getStartTF env joint_model_group req pl
      in (True, pl1\<lparr>goal_pose_m := screwGoalPose env (screw_msg req) (theta req) tf_msg\<rparr>))"

section \<open>Candidate generation\<close>

text \<open>
  Modelled from the spec: \<^verbatim>\<open>checkDuplicateState\<close> is declared in the planner's header
  and its body is not in the source file. The spec says that each IK success is checked
  for duplication, within a joint-space distance threshold, against the configurations
  already accepted; the function answers true when the new configuration may be kept.
\<close>

definition checkDuplicateState :: "('k, 'p, 's) Collaborators \<Rightarrow> config list \<Rightarrow> config \<Rightarrow> bool" where
  "checkDuplicateState env state_list joint_values =
     list_all (\<lambda>state. \<not> withinDuplicateThreshold env state joint_values) state_list"

text \<open>
  \<^verbatim>\<open>increaseStateList\<close>: one IK attempt at a pose; the solution is appended when the
  check passes. It returns the list and the kinematic state, both of which it may change.
\<close>

definition increaseStateList ::
  "('k, 'p, 's) Collaborators \<Rightarrow> 'p \<Rightarrow> config list \<Rightarrow> 'k \<Rightarrow> config list \<times> 'k" where
  "increaseStateList env pose state_list k =
     (case setFromIK env pose k of
        (False, k1) \<Rightarrow> (state_list, k1)
      | (True, k1) \<Rightarrow>
          (let joint_values = copyJointGroupPositions env k1
           in if checkDuplicateState env state_list joint_values
              then (state_list @ [joint_values], k1)
              else (state_list, k1)))"

text \<open>
  A pool without duplicates: no configuration is within the duplicate threshold of one
  that stands before it in the pool (the order in which the check compares them).
\<close>

definition duplicate_free :: "('k, 'p, 's) Collaborators \<Rightarrow> config list \<Rightarrow> bool" where
  "duplicate_free env pool =
     sorted_wrt (\<lambda>earlier later. \<not> withinDuplicateThreshold env earlier later) pool"

text \<open>One pass through the body of the loop of \<^verbatim>\<open>findGoalStates\<close>.\<close>

definition goal_iteration ::
  "('k, 'p, 's) Collaborators \<Rightarrow> 'p \<Rightarrow> config list \<times> 'k \<Rightarrow> config list \<times> 'k" where
  "goal_iteration env goal_pose_msg st =
     (let (goal_configs, k1) = increaseStateList env goal_pose_msg (fst st) (snd st)
      in (goal_configs, setToRandomPositions env k1))"

text \<open>
  The loop of \<^verbatim>\<open>findGoalStates\<close>; it also returns the final value of its counter.
  The counter cannot wrap: it is below the bound when it is incremented.
\<close>

function findGoalStates_loop ::
  "('k, 'p, 's) Collaborators \<Rightarrow> 'p \<Rightarrow> nat \<Rightarrow> nat \<Rightarrow> config list \<times> 'k \<Rightarrow> nat \<times> config list \<times> 'k" where
  "findGoalStates_loop env goal_pose_msg num_goal i st =
     (if length (fst st) < num_goal \<and> i < size_t_wrap (2 * num_goal)
      then findGoalStates_loop env goal_pose_msg num_goal (i + 1) (goal_iteration env goal_pose_msg st)
      else (i, st))"
  by pat_completeness auto
termination
  by (relation "measure (\<lambda>(env, p, num_goal, i, st). size_t_wrap (2 * num_goal) - i)") auto

declare findGoalStates_loop.simps [simp del]

text \<open>
  \<^verbatim>\<open>findGoalStates\<close> clears both lists before it looks at the request, so the lists
  passed in do not matter. The calls of \<^verbatim>\<open>reserve\<close> change the capacity of a vector
  only and are left out, here and in \<^verbatim>\<open>findStartGoalStates\<close>.
\<close>

definition findGoalStates ::
  "('k, 'p, 's) Collaborators \<Rightarrow> JointModelGroup \<Rightarrow> ('p, 's) APPlanningRequest \<Rightarrow> nat \<Rightarrow>
   config list \<Rightarrow> config list \<Rightarrow> ('k, 'p) ScrewPlanner \<Rightarrow>
   bool \<times> config list \<times> config list \<times> ('k, 'p) ScrewPlanner" where
  "findGoalStates env joint_model_group req num_goal start_configs goal_configs pl =
     (if length (start_joint_state req) \<noteq> getVariableCount joint_model_group
      then (False, [], [], pl)
      else
        (let k = setJointGroupPositions env (start_joint_state req) (kinematic_state_m pl);
             (i, goals, k1) = findGoalStates_loop env (goal_pose_m pl) num_goal 0 ([], k)
         in (0 < length goals, [start_joint_state req], goals, pl\<lparr>kinematic_state_m := k1\<rparr>)))"

text \<open>One pass through the body of the loop of \<^verbatim>\<open>findStartGoalStates\<close>.\<close>

definition start_goal_iteration ::
  "('k, 'p, 's) Collaborators \<Rightarrow> 'p \<Rightarrow> 'p \<Rightarrow> nat \<Rightarrow> nat \<Rightarrow>
   config list \<times> config list \<times> 'k \<Rightarrow> config list \<times> config list \<times> 'k" where
  "start_goal_iteration env start_pose_msg goal_pose_msg num_start num_goal st =
     (case st of (start_configs, goal_configs, k) \<Rightarrow>
        (let k1 = setToRandomPositions env k;
             (starts, k2) = (if length start_configs < num_start
                             then increaseStateList env start_pose_msg start_configs k1
                             else (start_configs, k1));
             (goals, k3) = (if length goal_configs < num_goal
                            then increaseStateList env goal_pose_msg goal_configs k2
                            else (goal_configs, k2))
         in (starts, goals, k3)))"

function findStartGoalStates_loop ::
  "('k, 'p, 's) Collaborators \<Rightarrow> 'p \<Rightarrow> 'p \<Rightarrow> nat \<Rightarrow> nat \<Rightarrow> nat \<Rightarrow>
   config list \<times> config list \<times> 'k \<Rightarrow> nat \<times> config list \<times> config list \<times> 'k" where
  "findStartGoalStates_loop env start_pose_msg goal_pose_msg num_start num_goal i st =
     (if (length (fst st) < num_start \<or> length (fst (snd st)) < num_goal)
         \<and> i < size_t_wrap (2 * size_t_wrap (num_goal + num_start))
      then findStartGoalStates_loop env start_pose_msg goal_pose_msg num_start num_goal (i + 1)
             (start_goal_iteration env start_pose_msg goal_pose_msg num_start num_goal st)
      else (i, st))"
  by pat_completeness auto
termination
  by (relation "measure (\<lambda>(env, sp, gp, num_start, num_goal, i, st).
         size_t_wrap (2 * size_t_wrap (num_goal + num_start)) - i)") auto

declare findStartGoalStates_loop.simps [simp del]

text \<open>
  \<^verbatim>\<open>findStartGoalStates\<close> returns before clearing the lists when a quota is zero.
\<close>

definition findStartGoalStates ::
  "('k, 'p, 's) Collaborators \<Rightarrow> ('p, 's) APPlanningRequest \<Rightarrow> nat \<Rightarrow> nat \<Rightarrow>
   config list \<Rightarrow> config list \<Rightarrow> ('k, 'p) ScrewPlanner \<Rightarrow>
   bool \<times> config list \<times> config list \<times> ('k, 'p) ScrewPlanner" where
  "findStartGoalStates env req num_start num_goal start_configs goal_configs pl =
     (if num_goal < 1 \<or> num_start < 1 then (False, start_configs, goal_configs, pl)
      else
        (let (i, starts, goals, k) =
               findStartGoalStates_loop env (start_pose req) (goal_pose_m pl) num_start num_goal 0
                 ([], [], kinematic_state_m pl)
         in (0 < length starts \<and> 0 < length goals, starts, goals, pl\<lparr>kinematic_state_m := k\<rparr>)))"

section \<open>Trajectory extraction\<close>

text \<open>
  How the loop over the interpolated states ends: \<open>Returned\<close> is the \<^verbatim>\<open>return\<close>
  inside the loop body, \<open>Completed\<close> is falling out of the loop.
\<close>

datatype 'a loop_exit = Returned 'a | Completed 'a

text \<open>
  The outer loop of \<^verbatim>\<open>populateResponse\<close>. The result \<open>None\<close> stands for undefined
  behaviour of the C++: reading \<^verbatim>\<open>robot_state[i]\<close> beyond the dimension of the state.
\<close>

text \<open>The inner loop: the first \<open>num_joints\<close> entries of the joint part of a state.\<close>

definition state_positions :: "nat \<Rightarrow> CompoundState \<Rightarrow> config" where
  "state_positions num_joints state = map (\<lambda>i. robot_state state ! i) [0 ..< num_joints]"

fun populate_states ::
  "('k, 'p, 's) Collaborators \<Rightarrow> ('p, 's) APPlanningRequest \<Rightarrow> nat \<Rightarrow> CompoundState list \<Rightarrow>
   APPlanningResponse \<Rightarrow> APPlanningResponse loop_exit option" where
  "populate_states env req num_joints [] res = Some (Completed res)"
| "populate_states env req num_joints (state # rest) res =
     (if \<not> isValid env state then
        Some (Returned (res\<lparr>trajectory_is_valid := False,
                            percentage_complete := double_div (screw_state state) (theta req)\<rparr>))
      else if length (robot_state state) < num_joints then None
      else
        (let output = state_positions num_joints state
         in populate_states env req num_joints rest (res\<lparr>points := points res @ [output]\<rparr>)))"

text \<open>The subtraction of two doubles: the exact difference, rounded.\<close>

definition double_minus :: "('k, 'p, 's) Collaborators \<Rightarrow> real \<Rightarrow> real \<Rightarrow> double" where
  "double_minus env x y = roundToDouble env (x - y)"

text \<open>
  \<^verbatim>\<open>populateResponse\<close>; \<open>None\<close> is again undefined behaviour, here also
  \<^verbatim>\<open>back()\<close> of an empty vector of states.
\<close>

definition populateResponse ::
  "('k, 'p, 's) Collaborators \<Rightarrow> JointModelGroup \<Rightarrow> CompoundState list \<Rightarrow>
   ('p, 's) APPlanningRequest \<Rightarrow> APPlanningResponse \<Rightarrow> APPlanningResponse option" where
  "populateResponse env joint_model_group solution req res =
     (if length solution < 2 then Some res
      else
        (let states = interpolate env solution;
             res1 = res\<lparr>joint_names := getVariableNames joint_model_group\<rparr>;
             num_joints = length (joint_names res1)
         in case populate_states env req num_joints states res1 of
              None \<Rightarrow> None
            | Some (Returned res2) \<Rightarrow> Some res2
            | Some (Completed res2) \<Rightarrow>
                (if states = [] then None
                 else
                   (let screw = screw_state (last states);
                        err = double_fabs (double_minus env (theta req) screw);
                        res3 = (if double_greater err double_0_01
                                then res2\<lparr>trajectory_is_valid := False\<rparr>
                                else res2\<lparr>trajectory_is_valid := True\<rparr>)
                    in Some (res3\<lparr>percentage_complete := double_div screw (theta req),
                                   path_length := solution_length env states\<rparr>)))))"

section \<open>The planning call\<close>

text \<open>
  Modelled from the spec: \<^verbatim>\<open>vectorToState\<close> is a helper of the repository whose body is
  not in the source file. The spec says that start configurations are registered with
  progress 0 and goal configurations with progress \<open>theta\<close>; the helper pairs the
  one-element screw vector with the joint vector.
\<close>

definition vectorToState :: "real \<Rightarrow> config \<Rightarrow> CompoundState" where
  "vectorToState screw joints = \<lparr>screw_state = screw, robot_state = joints\<rparr>"

text \<open>The first four statements of \<^verbatim>\<open>plan\<close>: the response in its failing case.\<close>

definition reset_response :: "APPlanningResponse \<Rightarrow> APPlanningResponse" where
  "reset_response res =
     res\<lparr>joint_names := [], points := [], percentage_complete := Finite 0,
         trajectory_is_valid := False\<rparr>"

text \<open>The members at the point where \<^verbatim>\<open>plan\<close> has set the space parameters.\<close>

definition planner_after_setup ::
  "('k, 'p, 's) Collaborators \<Rightarrow> JointModelGroup \<Rightarrow> ('p, 's) APPlanningRequest \<Rightarrow>
   ('k, 'p) ScrewPlanner \<Rightarrow> bool \<times> ('k, 'p) ScrewPlanner" where
  "planner_after_setup env joint_model_group req pl =
     setSpaceParameters env joint_model_group req (pl\<lparr>kinematic_state_m := setToDefaultValues env\<rparr>)"

text \<open>\<^verbatim>\<open>setSimpleSetup\<close> builds the OMPL objects and always returns true.\<close>

definition setSimpleSetup :: "StateSpace \<Rightarrow> bool" where
  "setSimpleSetup space = True"

text \<open>The block of \<^verbatim>\<open>plan\<close> that creates the start and goal configurations.\<close>

definition create_start_goal ::
  "('k, 'p, 's) Collaborators \<Rightarrow> JointModelGroup \<Rightarrow> ('p, 's) APPlanningRequest \<Rightarrow>
   ('k, 'p) ScrewPlanner \<Rightarrow> bool \<times> config list \<times> config list \<times> ('k, 'p) ScrewPlanner" where
  "create_start_goal env joint_model_group req pl =
     (if passed_start_config_m pl
      then findGoalStates env joint_model_group req 10 [] [] pl
      else findStartGoalStates env req 5 10 [] [] pl)"

text \<open>
  \<^verbatim>\<open>plan\<close>: the result code and the response as the caller finds it; \<open>None\<close> is
  undefined behaviour inside \<^verbatim>\<open>populateResponse\<close>. The members of the planner that
  the call does not overwrite before reading are not an input.
\<close>

definition plan ::
  "('k, 'p, 's) Collaborators \<Rightarrow> JointModelGroup \<Rightarrow> ('k, 'p) ScrewPlanner \<Rightarrow>
   ('p, 's) APPlanningRequest \<Rightarrow> APPlanningResponse \<Rightarrow> (Result \<times> APPlanningResponse) option" where
  "plan env joint_model_group pl0 req res0 =
     (let res = reset_response res0 in
      case setupStateSpace joint_model_group req of
        None \<Rightarrow> Some (INITIALIZATION_FAIL, res)
      | Some state_space \<Rightarrow>
          (case planner_after_setup env joint_model_group req pl0 of
             (False, pl1) \<Rightarrow> Some (INITIALIZATION_FAIL, res)
           | (True, pl1) \<Rightarrow>
               if \<not> setSimpleSetup state_space then Some (INITIALIZATION_FAIL, res)
               else
                 (case create_start_goal env joint_model_group req pl1 of
                    (False, start_configs, goal_configs, pl2) \<Rightarrow> Some (NO_IK_SOLUTION, res)
                  | (True, start_configs, goal_configs, pl2) \<Rightarrow>
                      (case solve env state_space
                              (map (vectorToState 0) start_configs)
                              (map (vectorToState (theta req)) goal_configs) of
                         None \<Rightarrow> Some (PLANNING_FAIL, res)
                       | Some path \<Rightarrow>
                           (case populateResponse env joint_model_group
                                   (simplifySolution env path) req res of
                              None \<Rightarrow> None
                            | Some res1 \<Rightarrow> Some (SUCCESS, res1))))))"

section \<open>A concrete robot, used to run the definitions\<close>

text \<open>
  A two-joint arm. Its kinematic state is a counter: inverse kinematics always succeeds
  and leaves the counter, the joint positions read back are the counter and 0, and a
  random re-seed increments it. Two configurations are duplicates when they are equal.
  The planner joins the first start state to the first goal state. Rounding leaves a
  value alone: the examples subtract doubles whose difference is a double.
\<close>

definition example_env :: "(nat, nat, unit) Collaborators" where
  "example_env =
     \<lparr>setToDefaultValues = 0,
      setJointGroupPositions = (\<lambda>q k. k),
      getFrameTransform = (\<lambda>k frame. 0),
      setFromIK = (\<lambda>pose k. (True, k)),
      copyJointGroupPositions = (\<lambda>k. [real k, 0]),
      setToRandomPositions = (\<lambda>k. k + 1),
      screwGoalPose = (\<lambda>s th tf. tf + 1),
      withinDuplicateThreshold = (\<lambda>a b. a = b),
      solve = (\<lambda>space starts goals.
                 case starts of [] \<Rightarrow> None
                 | s # _ \<Rightarrow> (case goals of [] \<Rightarrow> None | g # _ \<Rightarrow> Some [s, g])),
      simplifySolution = (\<lambda>path. path),
      interpolate = (\<lambda>path. path),
      isValid = (\<lambda>state. True),
      solution_length = (\<lambda>path. real (length path) - 1),
      roundToDouble = Finite\<rparr>"

definition example_group :: JointModelGroup where
  "example_group =
     \<lparr>getActiveJointModels =
        [\<lparr>getName = ''shoulder'', getType = REVOLUTE,
          getVariableBounds =
            (\<lambda>n. \<lparr>min_position = - 1, max_position = 1, position_bounded = True\<rparr>)\<rparr>,
         \<lparr>getName = ''slide'', getType = PRISMATIC,
          getVariableBounds =
            (\<lambda>n. \<lparr>min_position = 0, max_position = 2, position_bounded = True\<rparr>)\<rparr>],
      getVariableCount = 2,
      getVariableNames = [''shoulder'', ''slide'']\<rparr>"

definition example_planner :: "(nat, nat) ScrewPlanner" where
  "example_planner =
     \<lparr>kinematic_state_m = 0, passed_start_config_m = False, start_pose_m = 0, goal_pose_m = 0\<rparr>"

definition example_request :: "config \<Rightarrow> real \<Rightarrow> (nat, unit) APPlanningRequest" where
  "example_request q th =
     \<lparr>screw_msg = (), theta = th, ee_frame_name = ''tool'', start_joint_state = q, start_pose = 7\<rparr>"

text \<open>A response left over from an earlier call.\<close>

definition example_response :: APPlanningResponse where
  "example_response =
     \<lparr>joint_names = [''stale''], points = [[5]], percentage_complete = Finite 1,
      trajectory_is_valid = True, path_length = 3\<rparr>"

definition example_state :: "real \<Rightarrow> CompoundState" where
  "example_state progress = \<lparr>screw_state = progress, robot_state = [progress, 1]\<rparr>"

text \<open>The same robot with an obstacle: states beyond half of the screw are invalid.\<close>

definition obstacle_env :: "(nat, nat, unit) Collaborators" where
  "obstacle_env = example_env\<lparr>isValid := (\<lambda>state. screw_state state < 1 / 2)\<rparr>"

text \<open>The same robot with a planner that finds nothing.\<close>

definition no_path_env :: "(nat, nat, unit) Collaborators" where
  "no_path_env = example_env\<lparr>solve := (\<lambda>space starts goals. None)\<rparr>"

text \<open>The same robot with a planner whose path is the single start state.\<close>

definition single_state_env :: "(nat, nat, unit) Collaborators" where
  "single_state_env =
     example_env\<lparr>solve := (\<lambda>space starts goals. case starts of [] \<Rightarrow> None | s # _ \<Rightarrow> Some [s])\<rparr>"

text \<open>The same robot with a random generator that is stuck: every re-seed gives the same seed.\<close>

definition stuck_seed_env :: "(nat, nat, unit) Collaborators" where
  "stuck_seed_env = example_env\<lparr>setToRandomPositions := (\<lambda>k. k)\<rparr>"

text \<open>The same robot with an inverse kinematics that never finds a solution.\<close>

definition no_ik_env :: "(nat, nat, unit) Collaborators" where
  "no_ik_env = example_env\<lparr>setFromIK := (\<lambda>pose k. (False, k))\<rparr>"

text \<open>
  The same robot with a harder inverse kinematics: at the start pose of the example
  request (pose 7) it always succeeds, at any other pose only on an even seed, and the
  joint positions read back are a third of the seed, rounded down, and 0, so that
  consecutive seeds can give the same configuration.
\<close>

definition selective_ik_env :: "(nat, nat, unit) Collaborators" where
  "selective_ik_env =
     example_env\<lparr>setFromIK := (\<lambda>pose k. (pose = 7 \<or> even k, k)),
                 copyJointGroupPositions := (\<lambda>k. [real (k div 3), 0])\<rparr>"

text \<open>A free-flying base: one floating joint, with its seven variables.\<close>

definition floating_group :: JointModelGroup where
  "floating_group =
     \<lparr>getActiveJointModels =
        [\<lparr>getName = ''base'', getType = FLOATING,
          getVariableBounds =
            (\<lambda>n. \<lparr>min_position = 0, max_position = 0, position_bounded = False\<rparr>)\<rparr>],
      getVariableCount = 7,
      getVariableNames = [''base/trans_x'', ''base/trans_y'', ''base/trans_z'',
                          ''base/rot_x'', ''base/rot_y'', ''base/rot_z'', ''base/rot_w'']\<rparr>"

section \<open>Unfolding the definitions on concrete inputs\<close>

lemmas plan_defs = plan_def reset_response_def setupStateSpace_def planner_after_setup_def
  setSpaceParameters_def getStartTF_def setSimpleSetup_def create_start_goal_def
  findGoalStates_def findStartGoalStates_def start_goal_iteration_def goal_iteration_def
  increaseStateList_def checkDuplicateState_def populateResponse_def vectorToState_def
  size_t_wrap_def double_div_def double_minus_def double_0_01_def
  findGoalStates_loop.simps findStartGoalStates_loop.simps

lemmas example_defs = example_env_def example_group_def example_planner_def example_request_def
  example_response_def example_state_def obstacle_env_def no_path_env_def single_state_env_def
  stuck_seed_env_def no_ik_env_def selective_ik_env_def floating_group_def

section \<open>Trajectory extraction: the walk over the interpolated states\<close>







section \<open>Candidate generation: the two loops\<close>

text \<open>
  What one attempt does to a pool, what a run of either loop amounts to (a number of
  passes through its body, each made while the loop condition held), and an invariant
  rule for each loop.
\<close>

lemma increaseStateList_cases:
  "fst (increaseStateList env pose xs k) = xs \<or>
   (\<exists>v. fst (increaseStateList env pose xs k) = xs @ [v] \<and> checkDuplicateState env xs v)"
  by (auto simp add: increaseStateList_def Let_def split: prod.splits bool.splits)

lemma increaseStateList_length:
  "length (fst (increaseStateList env pose xs k)) \<le> Suc (length xs)"
  using increaseStateList_cases [of env pose xs k] by auto

lemma increaseStateList_duplicate_free:
  "duplicate_free env xs \<Longrightarrow> duplicate_free env (fst (increaseStateList env pose xs k))"
  using increaseStateList_cases [of env pose xs k]
  by (auto simp add: duplicate_free_def sorted_wrt_append checkDuplicateState_def list_all_iff)

lemma goal_iteration_fst:
  "fst (goal_iteration env pose st) = fst (increaseStateList env pose (fst st) (snd st))"
  by (simp add: goal_iteration_def split: prod.splits)

lemma findGoalStates_loop_runs:
  "findGoalStates_loop env pose n i st = (i', st') \<Longrightarrow>
   \<exists>m. i' = i + m \<and> st' = (goal_iteration env pose ^^ m) st
     \<and> (\<forall>j<m. length (fst ((goal_iteration env pose ^^ j) st)) < n)
     \<and> \<not> (length (fst st') < n \<and> i' < size_t_wrap (2 * n))
     \<and> (i \<le> size_t_wrap (2 * n) \<longrightarrow> i' \<le> size_t_wrap (2 * n))"
proof (induction env pose n i st rule: findGoalStates_loop.induct)
  case (1 env pose n i st)
  show ?case
  proof (cases "length (fst st) < n \<and> i < size_t_wrap (2 * n)")
    case False
    with "1.prems" have "i' = i" "st' = st"
      by (simp_all add: findGoalStates_loop.simps [of env pose n i st])
    with False show ?thesis by (intro exI [of _ 0]) simp
  next
    case True
    with "1.prems" have rec: "findGoalStates_loop env pose n (i + 1) (goal_iteration env pose st) = (i', st')"
      by (simp add: findGoalStates_loop.simps [of env pose n i st])
    from "1.IH" [OF True rec] obtain m where
      m: "i' = i + 1 + m" "st' = (goal_iteration env pose ^^ m) (goal_iteration env pose st)"
         "\<forall>j<m. length (fst ((goal_iteration env pose ^^ j) (goal_iteration env pose st))) < n"
         "\<not> (length (fst st') < n \<and> i' < size_t_wrap (2 * n))"
         "i + 1 \<le> size_t_wrap (2 * n) \<longrightarrow> i' \<le> size_t_wrap (2 * n)"
      by blast
    have steps: "\<forall>j<Suc m. length (fst ((goal_iteration env pose ^^ j) st)) < n"
    proof (intro allI impI)
      fix j assume "j < Suc m"
      show "length (fst ((goal_iteration env pose ^^ j) st)) < n"
      proof (cases j)
        case 0
        with True show ?thesis by simp
      next
        case (Suc j')
        with \<open>j < Suc m\<close> m(3) show ?thesis by (simp add: funpow_swap1)
      qed
    qed
    from m True steps show ?thesis
      by (intro exI [of _ "Suc m"]) (simp add: funpow_swap1)
  qed
qed

lemma findGoalStates_loop_invariant:
  "(\<And>s. length (fst s) < n \<Longrightarrow> P s \<Longrightarrow> P (goal_iteration env pose s)) \<Longrightarrow> P st \<Longrightarrow>
   P (snd (findGoalStates_loop env pose n i st))"
proof (induction env pose n i st rule: findGoalStates_loop.induct)
  case (1 env pose n i st)
  show ?case
  proof (cases "length (fst st) < n \<and> i < size_t_wrap (2 * n)")
    case False
    then have "findGoalStates_loop env pose n i st = (i, st)"
      by (subst findGoalStates_loop.simps) auto
    with "1.prems" show ?thesis by simp
  next
    case True
    then have unfold: "findGoalStates_loop env pose n i st =
        findGoalStates_loop env pose n (i + 1) (goal_iteration env pose st)"
      by (subst findGoalStates_loop.simps) auto
    from True "1.prems" have "P (goal_iteration env pose st)" by blast
    from "1.IH" [OF True "1.prems"(1) this] unfold show ?thesis by simp
  qed
qed


lemma start_goal_iteration_cases:
  "start_goal_iteration env sp gp ns ng (s, g, k) = (s', g', k') \<Longrightarrow>
     (s' = s \<or> (length s < ns \<and> (\<exists>v. s' = s @ [v] \<and> checkDuplicateState env s v)))
   \<and> (g' = g \<or> (length g < ng \<and> (\<exists>v. g' = g @ [v] \<and> checkDuplicateState env g v)))"
proof -
  assume step: "start_goal_iteration env sp gp ns ng (s, g, k) = (s', g', k')"
  let ?k1 = "setToRandomPositions env k"
  obtain k2 where s': "(if length s < ns then increaseStateList env sp s ?k1 else (s, ?k1)) = (s', k2)"
    using step by (auto simp add: start_goal_iteration_def Let_def split: prod.splits)
  with step have g': "(if length g < ng then increaseStateList env gp g k2 else (g, k2)) = (g', k')"
    by (auto simp add: start_goal_iteration_def Let_def split: prod.splits)
  have "s' = s \<or> (length s < ns \<and> (\<exists>v. s' = s @ [v] \<and> checkDuplicateState env s v))"
    using s' increaseStateList_cases [of env sp s ?k1] by (auto split: if_splits)
  moreover have "g' = g \<or> (length g < ng \<and> (\<exists>v. g' = g @ [v] \<and> checkDuplicateState env g v))"
    using g' increaseStateList_cases [of env gp g k2] by (auto split: if_splits)
  ultimately show ?thesis by blast
qed

lemma findStartGoalStates_loop_runs:
  "findStartGoalStates_loop env sp gp ns ng i st = (i', st') \<Longrightarrow>
   \<exists>m. i' = i + m \<and> st' = (start_goal_iteration env sp gp ns ng ^^ m) st
     \<and> (\<forall>j<m. length (fst ((start_goal_iteration env sp gp ns ng ^^ j) st)) < ns
              \<or> length (fst (snd ((start_goal_iteration env sp gp ns ng ^^ j) st))) < ng)
     \<and> \<not> ((length (fst st') < ns \<or> length (fst (snd st')) < ng)
           \<and> i' < size_t_wrap (2 * size_t_wrap (ng + ns)))
     \<and> (i \<le> size_t_wrap (2 * size_t_wrap (ng + ns)) \<longrightarrow> i' \<le> size_t_wrap (2 * size_t_wrap (ng + ns)))"
proof (induction env sp gp ns ng i st rule: findStartGoalStates_loop.induct)
  case (1 env sp gp ns ng i st)
  let ?it = "start_goal_iteration env sp gp ns ng"
  let ?lim = "size_t_wrap (2 * size_t_wrap (ng + ns))"
  let ?guard = "\<lambda>s. length (fst s) < ns \<or> length (fst (snd s)) < ng"
  show ?case
  proof (cases "?guard st \<and> i < ?lim")
    case False
    then have "findStartGoalStates_loop env sp gp ns ng i st = (i, st)"
      by (subst findStartGoalStates_loop.simps) auto
    with "1.prems" have "i' = i" "st' = st" by simp_all
    with False show ?thesis by (intro exI [of _ 0]) simp
  next
    case True
    then have "findStartGoalStates_loop env sp gp ns ng i st =
        findStartGoalStates_loop env sp gp ns ng (i + 1) (?it st)"
      by (subst findStartGoalStates_loop.simps) auto
    with "1.prems" have rec: "findStartGoalStates_loop env sp gp ns ng (i + 1) (?it st) = (i', st')"
      by simp
    from "1.IH" [OF True rec] obtain m where
      m: "i' = i + 1 + m" "st' = (?it ^^ m) (?it st)"
         "\<forall>j<m. ?guard ((?it ^^ j) (?it st))"
         "\<not> (?guard st' \<and> i' < ?lim)"
         "i + 1 \<le> ?lim \<longrightarrow> i' \<le> ?lim"
      by blast
    have steps: "\<forall>j<Suc m. ?guard ((?it ^^ j) st)"
    proof (intro allI impI)
      fix j assume "j < Suc m"
      show "?guard ((?it ^^ j) st)"
      proof (cases j)
        case 0
        with True show ?thesis by simp
      next
        case (Suc j')
        with \<open>j < Suc m\<close> m(3) show ?thesis by (simp add: funpow_swap1)
      qed
    qed
    from m True have "i' = i + Suc m" "st' = (?it ^^ Suc m) st" "\<not> (?guard st' \<and> i' < ?lim)"
      "i \<le> ?lim \<longrightarrow> i' \<le> ?lim"
      by (simp_all add: funpow_swap1)
    with steps show ?thesis by blast
  qed
qed

lemma findStartGoalStates_loop_invariant:
  "(\<And>s. P s \<Longrightarrow> P (start_goal_iteration env sp gp ns ng s)) \<Longrightarrow> P st \<Longrightarrow>
   P (snd (findStartGoalStates_loop env sp gp ns ng i st))"
proof (induction env sp gp ns ng i st rule: findStartGoalStates_loop.induct)
  case (1 env sp gp ns ng i st)
  show ?case
  proof (cases "(length (fst st) < ns \<or> length (fst (snd st)) < ng)
                  \<and> i < size_t_wrap (2 * size_t_wrap (ng + ns))")
    case False
    then have "findStartGoalStates_loop env sp gp ns ng i st = (i, st)"
      by (subst findStartGoalStates_loop.simps) auto
    with "1.prems" show ?thesis by simp
  next
    case True
    then have unfold: "findStartGoalStates_loop env sp gp ns ng i st =
        findStartGoalStates_loop env sp gp ns ng (i + 1) (start_goal_iteration env sp gp ns ng st)"
      by (subst findStartGoalStates_loop.simps) auto
    from "1.prems" have "P (start_goal_iteration env sp gp ns ng st)" by blast
    from "1.IH" [OF True "1.prems"(1) this] unfold show ?thesis by simp
  qed
qed

section \<open>How the planning call reaches candidate generation\<close>

lemma size_t_wrap_le: "size_t_wrap n \<le> n"
  by (simp add: size_t_wrap_def)

lemma planner_after_setup_given:
  "length (start_joint_state req) = getVariableCount joint_model_group \<Longrightarrow>
   planner_after_setup env joint_model_group req pl0 =
     (True, pl0\<lparr>kinematic_state_m :=
                  setJointGroupPositions env (start_joint_state req) (setToDefaultValues env),
               passed_start_config_m := True,
               start_pose_m := getFrameTransform env
                  (setJointGroupPositions env (start_joint_state req) (setToDefaultValues env))
                  (ee_frame_name req),
               goal_pose_m := screwGoalPose env (screw_msg req) (theta req)
                  (getFrameTransform env
                     (setJointGroupPositions env (start_joint_state req) (setToDefaultValues env))
                     (ee_frame_name req))\<rparr>)"
  by (simp add: planner_after_setup_def setSpaceParameters_def getStartTF_def Let_def)

lemma planner_after_setup_not_given:
  "length (start_joint_state req) \<noteq> getVariableCount joint_model_group \<Longrightarrow>
   planner_after_setup env joint_model_group req pl0 =
     (True, pl0\<lparr>kinematic_state_m := setToDefaultValues env,
               passed_start_config_m := False,
               start_pose_m := start_pose req,
               goal_pose_m := screwGoalPose env (screw_msg req) (theta req) (start_pose req)\<rparr>)"
  by (simp add: planner_after_setup_def setSpaceParameters_def getStartTF_def Let_def)

lemma plan_setup_fails:
  "setupStateSpace joint_model_group req = None \<Longrightarrow>
   plan env joint_model_group pl0 req res0 = Some (INITIALIZATION_FAIL, reset_response res0)"
  by (simp add: plan_def)

lemma planner_after_setup_fst: "fst (planner_after_setup env joint_model_group req pl0)"
  by (simp add: planner_after_setup_def setSpaceParameters_def split: prod.splits)

lemma plan_no_ik_iff:
  assumes "setupStateSpace joint_model_group req = Some state_space"
  shows "(plan env joint_model_group pl0 req res0 = Some (NO_IK_SOLUTION, reset_response res0)) =
         (\<not> fst (create_start_goal env joint_model_group req
                    (snd (planner_after_setup env joint_model_group req pl0))))"
proof -
  obtain pl1 where pl1: "planner_after_setup env joint_model_group req pl0 = (True, pl1)"
    using planner_after_setup_fst [of env joint_model_group req pl0]
    by (cases "planner_after_setup env joint_model_group req pl0") auto
  obtain found starts goals pl2 where
    c: "create_start_goal env joint_model_group req pl1 = (found, starts, goals, pl2)"
    by (cases "create_start_goal env joint_model_group req pl1") auto
  show ?thesis
  proof (cases found)
    case False
    with assms pl1 c show ?thesis by (simp add: plan_def setSimpleSetup_def)
  next
    case True
    with assms pl1 c show ?thesis
      by (simp add: plan_def setSimpleSetup_def Let_def split: option.splits)
  qed
qed

section \<open>The result codes of the planning call\<close>

text \<open>
  Claim C3. When the external planner is run and reports no solution, \<^verbatim>\<open>plan\<close> returns
  \<open>PLANNING_FAIL\<close>, and the response is the one it was given with the four fields
  reset at the start of the call: no joint names, no waypoints, not valid, completion 0.
\<close>

theorem plan_planning_fail:
  assumes "setupStateSpace joint_model_group req = Some state_space"
      and "create_start_goal env joint_model_group req (snd (planner_after_setup env joint_model_group req pl0))
             = (True, start_configs, goal_configs, pl2)"
      and "solve env state_space (map (vectorToState 0) start_configs)
             (map (vectorToState (theta req)) goal_configs) = None"
  shows "plan env joint_model_group pl0 req res0 =
           Some (PLANNING_FAIL,
                 res0\<lparr>joint_names := [], points := [], percentage_complete := Finite 0,
                      trajectory_is_valid := False\<rparr>)"
  using assms
  by (simp add: plan_def reset_response_def setSimpleSetup_def planner_after_setup_def
        setSpaceParameters_def split: prod.splits)

theorem plan_planning_fail_witness:
  "plan no_path_env example_group example_planner (example_request [1, 2] 1) example_response =
   Some (PLANNING_FAIL,
         \<lparr>joint_names = [], points = [], percentage_complete = Finite 0,
          trajectory_is_valid = False, path_length = 3\<rparr>)"
proof -
  let ?req = "example_request [1, 2] 1"
  have space: "setupStateSpace example_group ?req =
                 Some \<lparr>screw_space = [(0, 1)], joint_space = [(- 1, 1), (0, 2)]\<rparr>"
    by (simp add: setupStateSpace_def example_defs)
  have "fst (create_start_goal no_path_env example_group ?req
               (snd (planner_after_setup no_path_env example_group ?req example_planner)))"
    by (simp add: plan_defs example_defs)
  then obtain starts goals pl2 where
    found: "create_start_goal no_path_env example_group ?req
              (snd (planner_after_setup no_path_env example_group ?req example_planner))
            = (True, starts, goals, pl2)"
    by (cases "create_start_goal no_path_env example_group ?req
              (snd (planner_after_setup no_path_env example_group ?req example_planner))") auto
  have none: "solve no_path_env \<lparr>screw_space = [(0, 1)], joint_space = [(- 1, 1), (0, 2)]\<rparr>
                (map (vectorToState 0) starts) (map (vectorToState (theta ?req)) goals) = None"
    by (simp add: no_path_env_def)
  from plan_planning_fail [OF space found none, of example_response]
  show ?thesis by (simp add: example_response_def)
qed

text \<open>
  Claim C10. When the external planner reports a solution, the only result code that
  \<^verbatim>\<open>plan\<close> returns is \<open>SUCCESS\<close>. When the path handed to the extraction (the
  simplified solution) has fewer than two states, the extraction writes nothing: the
  caller gets \<open>SUCCESS\<close> with the response in its reset state.
\<close>

theorem plan_success_short_path:
  assumes "setupStateSpace joint_model_group req = Some state_space"
      and "create_start_goal env joint_model_group req (snd (planner_after_setup env joint_model_group req pl0))
             = (True, start_configs, goal_configs, pl2)"
      and "solve env state_space (map (vectorToState 0) start_configs)
             (map (vectorToState (theta req)) goal_configs) = Some path"
  shows "(plan env joint_model_group pl0 req res0 = None
          \<or> (\<exists>res1. plan env joint_model_group pl0 req res0 = Some (SUCCESS, res1)))
       \<and> (length (simplifySolution env path) < 2 \<longrightarrow>
            plan env joint_model_group pl0 req res0 =
              Some (SUCCESS,
                    res0\<lparr>joint_names := [], points := [], percentage_complete := Finite 0,
                         trajectory_is_valid := False\<rparr>))"
proof -
  obtain pl1 where pl1: "planner_after_setup env joint_model_group req pl0 = (True, pl1)"
    using planner_after_setup_fst [of env joint_model_group req pl0]
    by (cases "planner_after_setup env joint_model_group req pl0") auto
  from assms pl1 have call: "plan env joint_model_group pl0 req res0 =
      (case populateResponse env joint_model_group (simplifySolution env path) req
              (reset_response res0) of
         None \<Rightarrow> None
       | Some res1 \<Rightarrow> Some (SUCCESS, res1))"
    by (simp add: plan_def setSimpleSetup_def Let_def)
  then have always: "plan env joint_model_group pl0 req res0 = None
      \<or> (\<exists>res1. plan env joint_model_group pl0 req res0 = Some (SUCCESS, res1))"
    by (simp split: option.splits)
  from call have short: "length (simplifySolution env path) < 2 \<longrightarrow>
      plan env joint_model_group pl0 req res0 =
        Some (SUCCESS,
              res0\<lparr>joint_names := [], points := [], percentage_complete := Finite 0,
                   trajectory_is_valid := False\<rparr>)"
    by (simp add: populateResponse_def reset_response_def)
  from always short show ?thesis by (rule conjI)
qed

theorem plan_success_short_path_witness:
  "plan single_state_env example_group example_planner (example_request [1, 2] 1) example_response =
   Some (SUCCESS,
         \<lparr>joint_names = [], points = [], percentage_complete = Finite 0,
          trajectory_is_valid = False, path_length = 3\<rparr>)"
proof -
  let ?req = "example_request [1, 2] 1"
  let ?space = "\<lparr>screw_space = [(0, 1)], joint_space = [(- 1, 1), (0, 2)]\<rparr>"
  have space: "setupStateSpace example_group ?req = Some ?space"
    by (simp add: setupStateSpace_def example_defs)
  have "fst (create_start_goal single_state_env example_group ?req
               (snd (planner_after_setup single_state_env example_group ?req example_planner)))
      \<and> fst (snd (create_start_goal single_state_env example_group ?req
               (snd (planner_after_setup single_state_env example_group ?req example_planner)))) = [[1, 2]]"
    by (simp add: plan_defs example_defs)
  then obtain goals pl2 where
    found: "create_start_goal single_state_env example_group ?req
              (snd (planner_after_setup single_state_env example_group ?req example_planner))
            = (True, [[1, 2]], goals, pl2)"
    by (cases "create_start_goal single_state_env example_group ?req
              (snd (planner_after_setup single_state_env example_group ?req example_planner))") auto
  have path: "solve single_state_env ?space
                (map (vectorToState 0) [[1, 2]]) (map (vectorToState (theta ?req)) goals)
              = Some [vectorToState 0 [1, 2]]"
    by (simp add: example_defs)
  have short: "length (simplifySolution single_state_env [vectorToState 0 [1, 2]]) < 2"
    by (simp add: example_defs)
  from plan_success_short_path [OF space found path, of example_response] short
  show ?thesis by (simp add: example_response_def)
qed

section \<open>Start-given mode\<close>

lemma goal_iteration_keeps:
  "goal_iteration env pose (gs, k0) =
     (let (found, k1) = setFromIK env pose k0;
          v = copyJointGroupPositions env k1
      in (if found \<and> checkDuplicateState env gs v then gs @ [v] else gs,
          setToRandomPositions env k1))"
  by (auto simp add: goal_iteration_def increaseStateList_def Let_def split: prod.splits bool.splits)

lemma findGoalStates_loop_length:
  "length (fst st) \<le> n \<Longrightarrow> length (fst (snd (findGoalStates_loop env pose n i st))) \<le> n"
proof (rule findGoalStates_loop_invariant [where P = "\<lambda>s. length (fst s) \<le> n"])
  fix s :: "config list \<times> 'a"
  assume "length (fst s) < n"
  moreover have "length (fst (goal_iteration env pose s)) \<le> Suc (length (fst s))"
    by (simp add: goal_iteration_fst increaseStateList_length)
  ultimately show "length (fst (goal_iteration env pose s)) \<le> n" by simp
qed

text \<open>
  Claim C6. In start-given mode (the start joint state has the group's variable count)
  goal generation makes \<open>i\<close> passes through its loop body, with \<open>i\<close> at most
  \<open>2 * num_goal\<close>. Each pass is an IK solve at the goal pose, whose result is kept only
  when the duplicate check against the goals accepted so far passes, followed by a random
  re-seed. A pass is made only while fewer than \<open>num_goal\<close> goals are held, so the loop
  stops with \<open>num_goal\<close> goals or with its budget used up, and never holds more than
  \<open>num_goal\<close>. The function reports failure exactly when it found no goal, and
  \<^verbatim>\<open>plan\<close>, which asks for 10 goals, then returns \<open>NO_IK_SOLUTION\<close>, and only then.
\<close>

theorem findGoalStates_start_given:
  assumes given: "length (start_joint_state req) = getVariableCount joint_model_group"
  shows "\<exists>i goals k.
           findGoalStates env joint_model_group req num_goal start_configs goal_configs pl
             = (goals \<noteq> [], [start_joint_state req], goals, pl\<lparr>kinematic_state_m := k\<rparr>)
         \<and> i \<le> 2 * num_goal
         \<and> (goals, k) = (goal_iteration env (goal_pose_m pl) ^^ i)
               ([], setJointGroupPositions env (start_joint_state req) (kinematic_state_m pl))
         \<and> (\<forall>j<i. length (fst ((goal_iteration env (goal_pose_m pl) ^^ j)
               ([], setJointGroupPositions env (start_joint_state req) (kinematic_state_m pl)))) < num_goal)
         \<and> (length goals = num_goal \<or> i = size_t_wrap (2 * num_goal))
         \<and> length goals \<le> num_goal
         \<and> (\<forall>gs k0. goal_iteration env (goal_pose_m pl) (gs, k0) =
               (let (found, k1) = setFromIK env (goal_pose_m pl) k0;
                    v = copyJointGroupPositions env k1
                in (if found \<and> checkDuplicateState env gs v then gs @ [v] else gs,
                    setToRandomPositions env k1)))
         \<and> (\<forall>state_space. setupStateSpace joint_model_group req = Some state_space \<longrightarrow>
               (plan env joint_model_group pl0 req res0 = Some (NO_IK_SOLUTION, reset_response res0))
               = (fst (snd (snd (findGoalStates env joint_model_group req 10 [] []
                     (snd (planner_after_setup env joint_model_group req pl0))))) = []))"
proof -
  let ?k0 = "setJointGroupPositions env (start_joint_state req) (kinematic_state_m pl)"
  let ?it = "goal_iteration env (goal_pose_m pl)"
  let ?lim = "size_t_wrap (2 * num_goal)"
  obtain i goals k where
    loop: "findGoalStates_loop env (goal_pose_m pl) num_goal 0 ([], ?k0) = (i, goals, k)"
    by (cases "findGoalStates_loop env (goal_pose_m pl) num_goal 0 ([], ?k0)") auto
  from findGoalStates_loop_runs [OF loop] have
    run: "(goals, k) = (?it ^^ i) ([], ?k0)"
    and while: "\<forall>j<i. length (fst ((?it ^^ j) ([], ?k0))) < num_goal"
    and exit: "\<not> (length goals < num_goal \<and> i < ?lim)"
    and bound: "i \<le> ?lim"
    by auto
  from findGoalStates_loop_length [of "([], ?k0)" num_goal env "goal_pose_m pl" 0] loop
  have quota: "length goals \<le> num_goal" by simp
  from bound size_t_wrap_le [of "2 * num_goal"] have le: "i \<le> 2 * num_goal" by simp
  from exit quota bound have stop: "length goals = num_goal \<or> i = ?lim" by auto
  from given loop have result:
    "findGoalStates env joint_model_group req num_goal start_configs goal_configs pl
       = (goals \<noteq> [], [start_joint_state req], goals, pl\<lparr>kinematic_state_m := k\<rparr>)"
    by (simp add: findGoalStates_def)
  have inside: "\<forall>state_space. setupStateSpace joint_model_group req = Some state_space \<longrightarrow>
      (plan env joint_model_group pl0 req res0 = Some (NO_IK_SOLUTION, reset_response res0))
      = (fst (snd (snd (findGoalStates env joint_model_group req 10 [] []
            (snd (planner_after_setup env joint_model_group req pl0))))) = [])"
  proof (intro allI impI)
    fix state_space
    assume space: "setupStateSpace joint_model_group req = Some state_space"
    let ?pl1 = "snd (planner_after_setup env joint_model_group req pl0)"
    from given have "passed_start_config_m ?pl1"
      by (simp add: planner_after_setup_given)
    then have mode: "create_start_goal env joint_model_group req ?pl1
        = findGoalStates env joint_model_group req 10 [] [] ?pl1"
      by (simp add: create_start_goal_def)
    from given have "fst (findGoalStates env joint_model_group req 10 [] [] ?pl1)
        = (fst (snd (snd (findGoalStates env joint_model_group req 10 [] [] ?pl1))) \<noteq> [])"
      by (simp add: findGoalStates_def Let_def split: prod.splits)
    with plan_no_ik_iff [OF space, of env pl0 res0] mode
    show "(plan env joint_model_group pl0 req res0 = Some (NO_IK_SOLUTION, reset_response res0))
      = (fst (snd (snd (findGoalStates env joint_model_group req 10 [] [] ?pl1))) = [])"
      by simp
  qed
  from result le run while stop quota inside goal_iteration_keeps [of env "goal_pose_m pl"]
  show ?thesis by blast
qed

theorem findGoalStates_start_given_witness:
  "findGoalStates example_env example_group (example_request [1, 2] 1) 2 [] [] example_planner
     = (True, [[1, 2]], [[0, 0], [1, 0]], example_planner\<lparr>kinematic_state_m := 2\<rparr>)
   \<and> (\<exists>i. i \<le> 4 \<and> ([[0, 0], [1, 0]], 2) = (goal_iteration example_env 0 ^^ i) ([], 0))"
proof -
  have given: "length (start_joint_state (example_request [1, 2] 1)) = getVariableCount example_group"
    by (simp add: example_defs)
  have run: "findGoalStates example_env example_group (example_request [1, 2] 1) 2 [] [] example_planner
     = (True, [[1, 2]], [[0, 0], [1, 0]], example_planner\<lparr>kinematic_state_m := 2\<rparr>)"
    by (simp add: plan_defs example_defs)
  have pose: "goal_pose_m example_planner = 0" "kinematic_state_m example_planner = 0"
     "setJointGroupPositions example_env [1, 2] 0 = 0"
     "start_joint_state (example_request [1, 2] 1) = [1, 2]"
    by (simp_all add: example_defs)
  from findGoalStates_start_given [OF given, of example_env 2 "[]" "[]" example_planner
         example_planner example_response]
  obtain i goals k where
    "findGoalStates example_env example_group (example_request [1, 2] 1) 2 [] [] example_planner
       = (goals \<noteq> [], [start_joint_state (example_request [1, 2] 1)], goals,
          example_planner\<lparr>kinematic_state_m := k\<rparr>)"
    "i \<le> 2 * 2"
    "(goals, k) = (goal_iteration example_env (goal_pose_m example_planner) ^^ i)
       ([], setJointGroupPositions example_env (start_joint_state (example_request [1, 2] 1))
              (kinematic_state_m example_planner))"
    by blast
  with run pose have "i \<le> 4" "([[0, 0], [1, 0]], 2) = (goal_iteration example_env 0 ^^ i) ([], 0)"
    by (simp_all add: example_planner_def)
  with run show ?thesis by blast
qed

section \<open>Start-and-goal mode\<close>

lemma increaseStateList_pass:
  "increaseStateList env pose pool k =
     (let (found, k1) = setFromIK env pose k;
          v = copyJointGroupPositions env k1
      in (if found \<and> checkDuplicateState env pool v then pool @ [v] else pool, k1))"
  by (auto simp add: increaseStateList_def Let_def split: prod.splits bool.splits)

lemma start_goal_iteration_pass:
  "start_goal_iteration env sp gp ns ng (s, g, k0) =
     (let k1 = setToRandomPositions env k0;
          (starts, k2) =
            (if length s < ns
             then (let (found, ka) = setFromIK env sp k1;
                       v = copyJointGroupPositions env ka
                   in (if found \<and> checkDuplicateState env s v then s @ [v] else s, ka))
             else (s, k1));
          (goals, k3) =
            (if length g < ng
             then (let (found, kb) = setFromIK env gp k2;
                       v = copyJointGroupPositions env kb
                   in (if found \<and> checkDuplicateState env g v then g @ [v] else g, kb))
             else (g, k2))
      in (starts, goals, k3))"
  by (simp add: start_goal_iteration_def increaseStateList_pass cong: if_cong)

lemma start_goal_iteration_lengths:
  assumes "length (fst s) \<le> ns \<and> length (fst (snd s)) \<le> ng"
  shows "length (fst (start_goal_iteration env sp gp ns ng s)) \<le> ns
       \<and> length (fst (snd (start_goal_iteration env sp gp ns ng s))) \<le> ng"
proof -
  obtain a b k where s: "s = (a, b, k)" by (cases s) auto
  obtain a' b' k' where s': "start_goal_iteration env sp gp ns ng (a, b, k) = (a', b', k')"
    by (cases "start_goal_iteration env sp gp ns ng (a, b, k)") auto
  from start_goal_iteration_cases [OF s'] assms s s' show ?thesis by auto
qed

lemma findStartGoalStates_loop_lengths:
  "length (fst st) \<le> ns \<and> length (fst (snd st)) \<le> ng \<Longrightarrow>
   length (fst (snd (findStartGoalStates_loop env sp gp ns ng i st))) \<le> ns
   \<and> length (fst (snd (snd (findStartGoalStates_loop env sp gp ns ng i st)))) \<le> ng"
  by (rule findStartGoalStates_loop_invariant
        [where P = "\<lambda>s. length (fst s) \<le> ns \<and> length (fst (snd s)) \<le> ng"])
     (simp_all add: start_goal_iteration_lengths)

text \<open>
  Claim C7. In start-and-goal mode, with both quotas positive, generation makes \<open>i\<close>
  passes through its loop body, with \<open>i\<close> at most \<open>2 * (num_start + num_goal)\<close>. Each
  pass re-seeds at random; then, if the start quota is unmet, solves the IK at the start
  pose of the request and appends the solution to the start pool when the duplicate check
  against that pool passes; then, if the goal quota is unmet, does the same at the goal
  pose for the goal pool, from the state that the start attempt left. A pass is made only
  while one of the quotas is unmet, so the loop stops with both quotas met or with its
  budget used up. The function reports failure exactly when the start pool or the goal pool is
  empty at the end, and \<^verbatim>\<open>plan\<close>, which asks for 5 starts and 10 goals when no start
  joint state of the right size is given, then returns \<open>NO_IK_SOLUTION\<close>, and only then.
\<close>

theorem findStartGoalStates_interleaved:
  assumes quotas: "0 < num_start" "0 < num_goal"
  shows "\<exists>i starts goals k.
           findStartGoalStates env req num_start num_goal start_configs goal_configs pl
             = (starts \<noteq> [] \<and> goals \<noteq> [], starts, goals, pl\<lparr>kinematic_state_m := k\<rparr>)
         \<and> i \<le> 2 * (num_start + num_goal)
         \<and> (starts, goals, k) =
             (start_goal_iteration env (start_pose req) (goal_pose_m pl) num_start num_goal ^^ i)
               ([], [], kinematic_state_m pl)
         \<and> (\<forall>j<i.
               length (fst ((start_goal_iteration env (start_pose req) (goal_pose_m pl)
                              num_start num_goal ^^ j) ([], [], kinematic_state_m pl))) < num_start
             \<or> length (fst (snd ((start_goal_iteration env (start_pose req) (goal_pose_m pl)
                              num_start num_goal ^^ j) ([], [], kinematic_state_m pl)))) < num_goal)
         \<and> ((length starts = num_start \<and> length goals = num_goal)
              \<or> i = size_t_wrap (2 * size_t_wrap (num_goal + num_start)))
         \<and> length starts \<le> num_start \<and> length goals \<le> num_goal
         \<and> (\<forall>s g k0.
               start_goal_iteration env (start_pose req) (goal_pose_m pl) num_start num_goal
                 (s, g, k0) =
               (let k1 = setToRandomPositions env k0;
                    (starts1, k2) =
                      (if length s < num_start
                       then (let (found, ka) = setFromIK env (start_pose req) k1;
                                 v = copyJointGroupPositions env ka
                             in (if found \<and> checkDuplicateState env s v then s @ [v] else s, ka))
                       else (s, k1));
                    (goals1, k3) =
                      (if length g < num_goal
                       then (let (found, kb) = setFromIK env (goal_pose_m pl) k2;
                                 v = copyJointGroupPositions env kb
                             in (if found \<and> checkDuplicateState env g v then g @ [v] else g, kb))
                       else (g, k2))
                in (starts1, goals1, k3)))
         \<and> (\<forall>state_space.
               length (start_joint_state req) \<noteq> getVariableCount joint_model_group \<longrightarrow>
               setupStateSpace joint_model_group req = Some state_space \<longrightarrow>
               (plan env joint_model_group pl0 req res0 = Some (NO_IK_SOLUTION, reset_response res0))
               = (fst (snd (findStartGoalStates env req 5 10 [] []
                     (snd (planner_after_setup env joint_model_group req pl0)))) = []
                  \<or> fst (snd (snd (findStartGoalStates env req 5 10 [] []
                     (snd (planner_after_setup env joint_model_group req pl0))))) = []))"
proof -
  let ?it = "start_goal_iteration env (start_pose req) (goal_pose_m pl) num_start num_goal"
  let ?init = "([] :: config list, [] :: config list, kinematic_state_m pl)"
  let ?lim = "size_t_wrap (2 * size_t_wrap (num_goal + num_start))"
  obtain i starts goals k where
    loop: "findStartGoalStates_loop env (start_pose req) (goal_pose_m pl) num_start num_goal 0 ?init
             = (i, starts, goals, k)"
    by (cases "findStartGoalStates_loop env (start_pose req) (goal_pose_m pl) num_start num_goal 0 ?init")
       auto
  from findStartGoalStates_loop_runs [OF loop] have
    run: "(starts, goals, k) = (?it ^^ i) ?init"
    and while: "\<forall>j<i. length (fst ((?it ^^ j) ?init)) < num_start
                     \<or> length (fst (snd ((?it ^^ j) ?init))) < num_goal"
    and exit: "\<not> ((length starts < num_start \<or> length goals < num_goal) \<and> i < ?lim)"
    and bound: "i \<le> ?lim"
    by auto
  from findStartGoalStates_loop_lengths
         [of ?init num_start num_goal env "start_pose req" "goal_pose_m pl" 0] loop
  have quota: "length starts \<le> num_start" "length goals \<le> num_goal" by simp_all
  have "?lim \<le> 2 * size_t_wrap (num_goal + num_start)" by (rule size_t_wrap_le)
  also have "\<dots> \<le> 2 * (num_goal + num_start)"
    using size_t_wrap_le [of "num_goal + num_start"] by simp
  finally have "?lim \<le> 2 * (num_start + num_goal)" by (simp add: add.commute)
  with bound have le: "i \<le> 2 * (num_start + num_goal)" by simp
  from exit quota have stop:
    "(length starts = num_start \<and> length goals = num_goal) \<or> i = ?lim"
    using bound by auto
  from quotas loop have result:
    "findStartGoalStates env req num_start num_goal start_configs goal_configs pl
       = (starts \<noteq> [] \<and> goals \<noteq> [], starts, goals, pl\<lparr>kinematic_state_m := k\<rparr>)"
    by (simp add: findStartGoalStates_def)
  have inside: "\<forall>state_space.
      length (start_joint_state req) \<noteq> getVariableCount joint_model_group \<longrightarrow>
      setupStateSpace joint_model_group req = Some state_space \<longrightarrow>
      (plan env joint_model_group pl0 req res0 = Some (NO_IK_SOLUTION, reset_response res0))
      = (fst (snd (findStartGoalStates env req 5 10 [] []
            (snd (planner_after_setup env joint_model_group req pl0)))) = []
         \<or> fst (snd (snd (findStartGoalStates env req 5 10 [] []
            (snd (planner_after_setup env joint_model_group req pl0))))) = [])"
  proof (intro allI impI)
    fix state_space
    assume differs: "length (start_joint_state req) \<noteq> getVariableCount joint_model_group"
      and space: "setupStateSpace joint_model_group req = Some state_space"
    let ?pl1 = "snd (planner_after_setup env joint_model_group req pl0)"
    let ?r = "findStartGoalStates env req 5 10 [] [] ?pl1"
    from differs have "\<not> passed_start_config_m ?pl1"
      by (simp add: planner_after_setup_not_given)
    then have mode: "create_start_goal env joint_model_group req ?pl1 = ?r"
      by (simp add: create_start_goal_def)
    have "fst ?r = (fst (snd ?r) \<noteq> [] \<and> fst (snd (snd ?r)) \<noteq> [])"
      by (simp add: findStartGoalStates_def Let_def split: prod.splits)
    with plan_no_ik_iff [OF space, of env pl0 res0] mode
    show "(plan env joint_model_group pl0 req res0 = Some (NO_IK_SOLUTION, reset_response res0))
      = (fst (snd ?r) = [] \<or> fst (snd (snd ?r)) = [])"
      by auto
  qed
  have pass: "\<forall>s g k0.
      start_goal_iteration env (start_pose req) (goal_pose_m pl) num_start num_goal (s, g, k0) =
      (let k1 = setToRandomPositions env k0;
           (starts1, k2) =
             (if length s < num_start
              then (let (found, ka) = setFromIK env (start_pose req) k1;
                        v = copyJointGroupPositions env ka
                    in (if found \<and> checkDuplicateState env s v then s @ [v] else s, ka))
              else (s, k1));
           (goals1, k3) =
             (if length g < num_goal
              then (let (found, kb) = setFromIK env (goal_pose_m pl) k2;
                        v = copyJointGroupPositions env kb
                    in (if found \<and> checkDuplicateState env g v then g @ [v] else g, kb))
              else (g, k2))
       in (starts1, goals1, k3))"
    by (intro allI) (rule start_goal_iteration_pass)
  from result le run while stop quota pass inside show ?thesis by blast
qed

text \<open>
  A run with quotas 2 and 3 on the robot with the harder inverse kinematics, from seed 0.
  Pass 1 (seed 1) accepts a start and fails at the goal pose; pass 2 (seed 2) rejects a
  duplicate start and accepts a goal; pass 3 fills the start quota; passes 4 and 6 accept
  the other two goals, pass 5 fails. The single pass from seed 1 is also what the theorem
  says a pass is.
\<close>

theorem findStartGoalStates_interleaved_witness:
  "findStartGoalStates selective_ik_env (example_request [] 1) 2 3 [] [] example_planner
     = (True, [[0, 0], [1, 0]], [[0, 0], [1, 0], [2, 0]], example_planner\<lparr>kinematic_state_m := 6\<rparr>)
   \<and> (\<exists>i. i \<le> 10 \<and> ([[0, 0], [1, 0]], [[0, 0], [1, 0], [2, 0]], 6)
              = (start_goal_iteration selective_ik_env 7 0 2 3 ^^ i) ([], [], 0))
   \<and> start_goal_iteration selective_ik_env 7 0 2 3 ([[0, 0]], [], 1) = ([[0, 0]], [[0, 0]], 2)"
proof -
  have quotas: "(0::nat) < 2" "(0::nat) < 3" by simp_all
  have run: "findStartGoalStates selective_ik_env (example_request [] 1) 2 3 [] [] example_planner
     = (True, [[0, 0], [1, 0]], [[0, 0], [1, 0], [2, 0]], example_planner\<lparr>kinematic_state_m := 6\<rparr>)"
    by (simp add: plan_defs example_defs)
  have vals: "goal_pose_m example_planner = 0" "kinematic_state_m example_planner = 0"
     "start_pose (example_request [] 1) = 7"
    by (simp_all add: example_defs)
  from findStartGoalStates_interleaved [OF quotas, where env = selective_ik_env
         and req = "example_request [] 1" and start_configs = "[]" and goal_configs = "[]"
         and pl = example_planner and joint_model_group = example_group
         and ?pl0.0 = example_planner and ?res0.0 = example_response]
  obtain i starts goals k where
    res: "findStartGoalStates selective_ik_env (example_request [] 1) 2 3 [] [] example_planner
       = (starts \<noteq> [] \<and> goals \<noteq> [], starts, goals, example_planner\<lparr>kinematic_state_m := k\<rparr>)"
    and le: "i \<le> 2 * (2 + 3)"
    and it: "(starts, goals, k) =
       (start_goal_iteration selective_ik_env (start_pose (example_request [] 1))
          (goal_pose_m example_planner) 2 3 ^^ i) ([], [], kinematic_state_m example_planner)"
    and pass: "\<forall>s g k0.
      start_goal_iteration selective_ik_env (start_pose (example_request [] 1))
        (goal_pose_m example_planner) 2 3 (s, g, k0) =
      (let k1 = setToRandomPositions selective_ik_env k0;
           (starts1, k2) =
             (if length s < 2
              then (let (found, ka) = setFromIK selective_ik_env (start_pose (example_request [] 1)) k1;
                        v = copyJointGroupPositions selective_ik_env ka
                    in (if found \<and> checkDuplicateState selective_ik_env s v then s @ [v] else s, ka))
              else (s, k1));
           (goals1, k3) =
             (if length g < 3
              then (let (found, kb) = setFromIK selective_ik_env (goal_pose_m example_planner) k2;
                        v = copyJointGroupPositions selective_ik_env kb
                    in (if found \<and> checkDuplicateState selective_ik_env g v then g @ [v] else g, kb))
              else (g, k2))
       in (starts1, goals1, k3))"
    by blast
  from res le it run vals have bound: "i \<le> 10"
    "([[0, 0], [1, 0]], [[0, 0], [1, 0], [2, 0]], 6)
       = (start_goal_iteration selective_ik_env 7 0 2 3 ^^ i) ([], [], 0)"
    by (simp_all add: example_planner_def)
  from pass vals have
    "start_goal_iteration selective_ik_env 7 0 2 3 ([[0, 0]], [], 1) = ([[0, 0]], [[0, 0]], 2)"
    by (simp add: example_defs checkDuplicateState_def)
  with run bound show ?thesis by blast
qed

section \<open>No duplicates in a pool\<close>

lemma findGoalStates_loop_duplicate_free:
  "duplicate_free env (fst st) \<Longrightarrow>
   duplicate_free env (fst (snd (findGoalStates_loop env pose n i st)))"
  by (rule findGoalStates_loop_invariant [where P = "\<lambda>s. duplicate_free env (fst s)"])
     (simp_all add: goal_iteration_fst increaseStateList_duplicate_free)

lemma start_goal_iteration_duplicate_free:
  assumes "duplicate_free env (fst s) \<and> duplicate_free env (fst (snd s))"
  shows "duplicate_free env (fst (start_goal_iteration env sp gp ns ng s))
       \<and> duplicate_free env (fst (snd (start_goal_iteration env sp gp ns ng s)))"
proof -
  obtain a b k where s: "s = (a, b, k)" by (cases s) auto
  obtain a' b' k' where s': "start_goal_iteration env sp gp ns ng (a, b, k) = (a', b', k')"
    by (cases "start_goal_iteration env sp gp ns ng (a, b, k)") auto
  from start_goal_iteration_cases [OF s'] assms s s' show ?thesis
    by (auto simp add: duplicate_free_def sorted_wrt_append checkDuplicateState_def list_all_iff)
qed

lemma findStartGoalStates_loop_duplicate_free:
  "duplicate_free env (fst st) \<and> duplicate_free env (fst (snd st)) \<Longrightarrow>
   duplicate_free env (fst (snd (findStartGoalStates_loop env sp gp ns ng i st)))
   \<and> duplicate_free env (fst (snd (snd (findStartGoalStates_loop env sp gp ns ng i st))))"
  by (rule findStartGoalStates_loop_invariant
        [where P = "\<lambda>s. duplicate_free env (fst s) \<and> duplicate_free env (fst (snd s))"])
     (simp_all add: start_goal_iteration_duplicate_free)

lemma duplicate_free_symmetric:
  assumes "duplicate_free env pool" and "symp (withinDuplicateThreshold env)"
      and "i < length pool" and "j < length pool" and "i \<noteq> j"
  shows "\<not> withinDuplicateThreshold env (pool ! i) (pool ! j)"
proof (cases "i < j")
  case True
  with assms(1,4) show ?thesis
    by (simp add: duplicate_free_def sorted_wrt_iff_nth_less)
next
  case False
  with assms(5) have "j < i" by simp
  with assms(1,3) have "\<not> withinDuplicateThreshold env (pool ! j) (pool ! i)"
    by (simp add: duplicate_free_def sorted_wrt_iff_nth_less)
  with assms(2) show ?thesis by (auto dest: sympD)
qed

text \<open>
  Claim C9. The pools that either generation mode returns hold no duplicates: a
  configuration is appended to a pool only when no configuration already in the pool is
  within the duplicate threshold of it, so no member of a returned pool is within the
  threshold of an earlier member; when the threshold relation is symmetric, no two
  members at different positions are within the threshold of each other.
\<close>

theorem candidate_pools_duplicate_free:
  "(case findGoalStates env joint_model_group req num_goal start_configs goal_configs pl of
      (found, starts, goals, pl') \<Rightarrow> duplicate_free env starts \<and> duplicate_free env goals)
   \<and> (case findStartGoalStates env req num_start num_goal [] [] pl of
      (found, starts, goals, pl') \<Rightarrow> duplicate_free env starts \<and> duplicate_free env goals)
   \<and> (\<forall>pose pool k. fst (increaseStateList env pose pool k) = pool
         \<or> (\<exists>v. fst (increaseStateList env pose pool k) = pool @ [v]
                \<and> list_all (\<lambda>accepted. \<not> withinDuplicateThreshold env accepted v) pool))
   \<and> (\<forall>pool i j. duplicate_free env pool \<longrightarrow> symp (withinDuplicateThreshold env) \<longrightarrow>
         i < length pool \<longrightarrow> j < length pool \<longrightarrow> i \<noteq> j \<longrightarrow>
         \<not> withinDuplicateThreshold env (pool ! i) (pool ! j))"
proof -
  have empty: "duplicate_free env []" by (simp add: duplicate_free_def)
  have single: "duplicate_free env [start_joint_state req]" by (simp add: duplicate_free_def)
  have a: "case findGoalStates env joint_model_group req num_goal start_configs goal_configs pl of
      (found, starts, goals, pl') \<Rightarrow> duplicate_free env starts \<and> duplicate_free env goals"
  proof (cases "length (start_joint_state req) = getVariableCount joint_model_group")
    case False
    with empty show ?thesis by (simp add: findGoalStates_def)
  next
    case True
    let ?k0 = "setJointGroupPositions env (start_joint_state req) (kinematic_state_m pl)"
    from findGoalStates_loop_duplicate_free [of env "([], ?k0)" "goal_pose_m pl" num_goal 0] empty
    have "duplicate_free env (fst (snd (findGoalStates_loop env (goal_pose_m pl) num_goal 0 ([], ?k0))))"
      by simp
    with True single show ?thesis
      by (auto simp add: findGoalStates_def Let_def split: prod.splits)
  qed
  have b: "case findStartGoalStates env req num_start num_goal [] [] pl of
      (found, starts, goals, pl') \<Rightarrow> duplicate_free env starts \<and> duplicate_free env goals"
  proof (cases "num_goal < 1 \<or> num_start < 1")
    case True
    with empty show ?thesis by (simp add: findStartGoalStates_def)
  next
    case False
    let ?init = "([] :: config list, [] :: config list, kinematic_state_m pl)"
    from findStartGoalStates_loop_duplicate_free
           [of env ?init "start_pose req" "goal_pose_m pl" num_start num_goal 0] empty
    have "duplicate_free env (fst (snd (findStartGoalStates_loop env (start_pose req)
              (goal_pose_m pl) num_start num_goal 0 ?init)))
        \<and> duplicate_free env (fst (snd (snd (findStartGoalStates_loop env (start_pose req)
              (goal_pose_m pl) num_start num_goal 0 ?init))))"
      by simp
    with False show ?thesis
      by (auto simp add: findStartGoalStates_def Let_def split: prod.splits)
  qed
  have c: "\<forall>pose pool k. fst (increaseStateList env pose pool k) = pool
         \<or> (\<exists>v. fst (increaseStateList env pose pool k) = pool @ [v]
                \<and> list_all (\<lambda>accepted. \<not> withinDuplicateThreshold env accepted v) pool)"
    using increaseStateList_cases [of env] by (simp add: checkDuplicateState_def)
  from a b c duplicate_free_symmetric [of env] show ?thesis by blast
qed

theorem candidate_pools_duplicate_free_witness:
  "findGoalStates stuck_seed_env example_group (example_request [1, 2] 1) 3 [] [] example_planner
     = (True, [[1, 2]], [[0, 0]], example_planner)
   \<and> findGoalStates example_env example_group (example_request [1, 2] 1) 2 [] [] example_planner
     = (True, [[1, 2]], [[0, 0], [1, 0]], example_planner\<lparr>kinematic_state_m := 2\<rparr>)
   \<and> duplicate_free stuck_seed_env [[0, 0]]
   \<and> duplicate_free example_env [[0, 0], [1, 0]]
   \<and> symp (withinDuplicateThreshold example_env)
   \<and> \<not> withinDuplicateThreshold example_env ([[0, 0], [1, 0]] ! 1) ([[0, 0], [1, 0]] ! 0)"
proof -
  have stuck: "findGoalStates stuck_seed_env example_group (example_request [1, 2] 1) 3 [] []
       example_planner = (True, [[1, 2]], [[0, 0]], example_planner)"
    by (simp add: plan_defs example_defs)
  have fresh: "findGoalStates example_env example_group (example_request [1, 2] 1) 2 [] []
       example_planner = (True, [[1, 2]], [[0, 0], [1, 0]], example_planner\<lparr>kinematic_state_m := 2\<rparr>)"
    by (simp add: plan_defs example_defs)
  have sym: "symp (withinDuplicateThreshold example_env)"
    by (simp add: example_env_def symp_def)
  from candidate_pools_duplicate_free [where env = stuck_seed_env and joint_model_group = example_group
         and req = "example_request [1, 2] 1" and num_goal = 3 and start_configs = "[]"
         and goal_configs = "[]" and pl = example_planner and num_start = 1] stuck
  have d1: "duplicate_free stuck_seed_env [[0, 0]]" by simp
  from candidate_pools_duplicate_free [where env = example_env and joint_model_group = example_group
         and req = "example_request [1, 2] 1" and num_goal = 2 and start_configs = "[]"
         and goal_configs = "[]" and pl = example_planner and num_start = 1] fresh
  have d2: "duplicate_free example_env [[0, 0], [1, 0]]"
    and pairs: "\<forall>pool i j. duplicate_free example_env pool \<longrightarrow>
         symp (withinDuplicateThreshold example_env) \<longrightarrow>
         i < length pool \<longrightarrow> j < length pool \<longrightarrow> i \<noteq> j \<longrightarrow>
         \<not> withinDuplicateThreshold example_env (pool ! i) (pool ! j)"
    by simp_all
  from pairs d2 sym
  have "\<not> withinDuplicateThreshold example_env ([[0, 0], [1, 0]] ! 1) ([[0, 0], [1, 0]] ! 0)"
    by (metis One_nat_def length_Cons lessI list.size(3) zero_less_Suc zero_neq_one)
  with stuck fresh d1 d2 sym show ?thesis by blast
qed

section \<open>A start joint state of the wrong size\<close>

text \<open>
  Claim C1, as the code has it. A start joint state whose size differs from the group's
  variable count is not an error: \<^verbatim>\<open>getStartTF\<close> then takes the start pose of the
  request and clears \<open>passed_start_config_m\<close>, so \<^verbatim>\<open>plan\<close> generates candidates in
  start-and-goal mode (5 starts, 10 goals) and never reaches the size check of
  \<^verbatim>\<open>findGoalStates\<close>. The call returns \<open>INITIALIZATION_FAIL\<close> when the state space
  cannot be built, and otherwise returns \<open>NO_IK_SOLUTION\<close> exactly when that generation
  ends with an empty start pool or an empty goal pool.
\<close>

theorem plan_start_size_mismatch:
  assumes differs: "length (start_joint_state req) \<noteq> getVariableCount joint_model_group"
  shows "create_start_goal env joint_model_group req
           (snd (planner_after_setup env joint_model_group req pl0))
         = findStartGoalStates env req 5 10 [] []
             (pl0\<lparr>kinematic_state_m := setToDefaultValues env,
                  passed_start_config_m := False,
                  start_pose_m := start_pose req,
                  goal_pose_m := screwGoalPose env (screw_msg req) (theta req) (start_pose req)\<rparr>)
       \<and> (setupStateSpace joint_model_group req = None \<longrightarrow>
            plan env joint_model_group pl0 req res0
              = Some (INITIALIZATION_FAIL, reset_response res0))
       \<and> (\<forall>state_space. setupStateSpace joint_model_group req = Some state_space \<longrightarrow>
            (plan env joint_model_group pl0 req res0 = Some (NO_IK_SOLUTION, reset_response res0))
            = (fst (snd (findStartGoalStates env req 5 10 [] []
                   (pl0\<lparr>kinematic_state_m := setToDefaultValues env,
                        passed_start_config_m := False,
                        start_pose_m := start_pose req,
                        goal_pose_m := screwGoalPose env (screw_msg req) (theta req)
                                         (start_pose req)\<rparr>))) = []
               \<or> fst (snd (snd (findStartGoalStates env req 5 10 [] []
                   (pl0\<lparr>kinematic_state_m := setToDefaultValues env,
                        passed_start_config_m := False,
                        start_pose_m := start_pose req,
                        goal_pose_m := screwGoalPose env (screw_msg req) (theta req)
                                         (start_pose req)\<rparr>)))) = []))"
proof -
  let ?pl1 = "pl0\<lparr>kinematic_state_m := setToDefaultValues env,
                  passed_start_config_m := False,
                  start_pose_m := start_pose req,
                  goal_pose_m := screwGoalPose env (screw_msg req) (theta req) (start_pose req)\<rparr>"
  let ?r = "findStartGoalStates env req 5 10 [] [] ?pl1"
  from differs have pl1: "snd (planner_after_setup env joint_model_group req pl0) = ?pl1"
    by (simp add: planner_after_setup_not_given)
  then have mode: "create_start_goal env joint_model_group req
                     (snd (planner_after_setup env joint_model_group req pl0)) = ?r"
    by (simp add: create_start_goal_def)
  have found: "fst ?r = (fst (snd ?r) \<noteq> [] \<and> fst (snd (snd ?r)) \<noteq> [])"
    by (simp add: findStartGoalStates_def Let_def split: prod.splits)
  have no_ik: "\<forall>state_space. setupStateSpace joint_model_group req = Some state_space \<longrightarrow>
      (plan env joint_model_group pl0 req res0 = Some (NO_IK_SOLUTION, reset_response res0))
      = (fst (snd ?r) = [] \<or> fst (snd (snd ?r)) = [])"
  proof (intro allI impI)
    fix state_space
    assume space: "setupStateSpace joint_model_group req = Some state_space"
    from plan_no_ik_iff [OF space, of env pl0 res0] mode found
    show "(plan env joint_model_group pl0 req res0 = Some (NO_IK_SOLUTION, reset_response res0))
      = (fst (snd ?r) = [] \<or> fst (snd (snd ?r)) = [])"
      by auto
  qed
  from mode no_ik plan_setup_fails [of joint_model_group req env pl0 res0]
  show ?thesis by blast
qed

text \<open>
  An instance: three values for a two-variable group, and an inverse kinematics that
  finds nothing; both pools stay empty and the call returns \<open>NO_IK_SOLUTION\<close>.
\<close>

theorem plan_start_size_mismatch_witness:
  "length (start_joint_state (example_request [1, 2, 3] 1)) \<noteq> getVariableCount example_group
   \<and> plan no_ik_env example_group example_planner (example_request [1, 2, 3] 1) example_response
     = Some (NO_IK_SOLUTION, reset_response example_response)"
proof -
  let ?req = "example_request [1, 2, 3] 1"
  let ?pl1 = "example_planner\<lparr>kinematic_state_m := setToDefaultValues no_ik_env,
                  passed_start_config_m := False,
                  start_pose_m := start_pose ?req,
                  goal_pose_m := screwGoalPose no_ik_env (screw_msg ?req) (theta ?req) (start_pose ?req)\<rparr>"
  have differs: "length (start_joint_state ?req) \<noteq> getVariableCount example_group"
    by (simp add: example_defs)
  have space: "setupStateSpace example_group ?req =
                 Some \<lparr>screw_space = [(0, 1)], joint_space = [(- 1, 1), (0, 2)]\<rparr>"
    by (simp add: setupStateSpace_def example_defs)
  have empty: "fst (snd (findStartGoalStates no_ik_env ?req 5 10 [] [] ?pl1)) = []"
    by (simp add: plan_defs example_defs)
  from plan_start_size_mismatch [OF differs, of no_ik_env example_planner example_response]
    space empty
  have "plan no_ik_env example_group example_planner ?req example_response
          = Some (NO_IK_SOLUTION, reset_response example_response)"
    by simp
  with differs show ?thesis by simp
qed

text \<open>
  Claim C1 as stated fails: with one value for the two-variable group, and an inverse
  kinematics that succeeds, the call plans from the start pose and returns \<open>SUCCESS\<close>.
\<close>

theorem plan_wrong_size_start_counterexample:
  "length (start_joint_state (example_request [1] 1)) \<noteq> getVariableCount example_group
   \<and> plan example_env example_group example_planner (example_request [1] 1) example_response
     = Some (SUCCESS,
             \<lparr>joint_names = [''shoulder'', ''slide''], points = [[1, 0], [1, 0]],
              percentage_complete = Finite 1, trajectory_is_valid = True, path_length = 1\<rparr>)"
  by (simp add: plan_defs example_defs state_positions_def)

section \<open>Joint types in the state-space construction\<close>

text \<open>
  Construction fails exactly when some revolute or prismatic joint has no position
  bounds; a planar joint adds three dimensions, a bounded revolute or prismatic joint one,
  and a joint of any other type adds none and is passed over.
\<close>

lemma add_joint_dimensions_planar:
  "getType joint = PLANAR \<Longrightarrow>
   add_joint_dimensions (joint # rest) dims =
     add_joint_dimensions rest (dims @ [(- 1000, 1000), (- 1000, 1000), (- M_PI, M_PI)])"
  by simp

lemma add_joint_dimensions_bounded:
  "getType joint = REVOLUTE \<or> getType joint = PRISMATIC \<Longrightarrow>
   position_bounded (getVariableBounds joint (getName joint)) \<Longrightarrow>
   add_joint_dimensions (joint # rest) dims =
     add_joint_dimensions rest
       (dims @ [(min_position (getVariableBounds joint (getName joint)),
                 max_position (getVariableBounds joint (getName joint)))])"
  by (auto simp add: Let_def)

lemma add_joint_dimensions_fails_iff:
  "add_joint_dimensions joints dims = None \<longleftrightarrow>
     (\<exists>joint\<in>set joints. (getType joint = REVOLUTE \<or> getType joint = PRISMATIC)
        \<and> \<not> position_bounded (getVariableBounds joint (getName joint)))"
  by (induction joints arbitrary: dims) (auto simp add: Let_def)

lemma add_joint_dimensions_count:
  "add_joint_dimensions joints dims = Some result \<Longrightarrow>
   length result = length dims
     + 3 * length (filter (\<lambda>joint. getType joint = PLANAR) joints)
     + length (filter (\<lambda>joint. getType joint = REVOLUTE \<or> getType joint = PRISMATIC) joints)"
  by (induction joints arbitrary: dims) (auto simp add: Let_def split: if_splits)

text \<open>
  Claim C4 says that a joint of any other type makes the construction fail. The code
  passes over it: for a group whose only active joint is a floating joint,
  \<^verbatim>\<open>setupStateSpace\<close> succeeds with a joint space of no dimensions, and \<^verbatim>\<open>plan\<close> goes
  on to candidate generation instead of returning \<open>INITIALIZATION_FAIL\<close>.
\<close>

theorem setupStateSpace_accepts_floating_joint:
  "setupStateSpace floating_group (example_request [] 1)
     = Some \<lparr>screw_space = [(0, 1)], joint_space = []\<rparr>
   \<and> plan no_ik_env floating_group example_planner (example_request [] 1) example_response
     = Some (NO_IK_SOLUTION,
             \<lparr>joint_names = [], points = [], percentage_complete = Finite 0,
              trajectory_is_valid = False, path_length = 3\<rparr>)"
  by (simp add: plan_defs example_defs)

section \<open>The range of the completion fraction\<close>

text \<open>
  For a positive \<open>theta\<close> and interpolated states whose progress lies between 0 and
  \<open>theta\<close>, the extraction leaves a completion fraction in the unit interval.
\<close>

lemma double_div_in_unit_interval:
  "0 < y \<Longrightarrow> 0 \<le> x \<Longrightarrow> x \<le> y \<Longrightarrow> in_unit_interval (double_div x y)"
  by (simp add: double_div_def)

lemma populate_states_fraction:
  "populate_states env req n states res = Some exit \<Longrightarrow> 0 < theta req \<Longrightarrow>
   \<forall>s\<in>set states. 0 \<le> screw_state s \<and> screw_state s \<le> theta req \<Longrightarrow>
   in_unit_interval (percentage_complete res) \<Longrightarrow>
   in_unit_interval (percentage_complete (case exit of Returned r \<Rightarrow> r | Completed r \<Rightarrow> r))"
proof (induction states arbitrary: res)
  case Nil
  then show ?case by auto
next
  case (Cons s states)
  show ?case
  proof (cases "isValid env s")
    case False
    with Cons.prems show ?thesis by (auto simp add: double_div_in_unit_interval)
  next
    case True
    with Cons.prems have
      "populate_states env req n states (res\<lparr>points := points res @ [state_positions n s]\<rparr>) = Some exit"
      by (auto split: if_splits)
    from Cons.IH [OF this] Cons.prems show ?thesis by simp
  qed
qed

lemma populateResponse_fraction_in_unit_interval:
  assumes "populateResponse env joint_model_group solution req res = Some res1"
      and "0 < theta req"
      and "\<forall>s\<in>set (interpolate env solution). 0 \<le> screw_state s \<and> screw_state s \<le> theta req"
      and "in_unit_interval (percentage_complete res)"
  shows "in_unit_interval (percentage_complete res1)"
proof (cases "length solution < 2")
  case True
  with assms show ?thesis by (simp add: populateResponse_def)
next
  case False
  let ?states = "interpolate env solution"
  let ?res = "res\<lparr>joint_names := getVariableNames joint_model_group\<rparr>"
  let ?n = "length (getVariableNames joint_model_group)"
  from False assms(1) obtain exit where
    exit: "populate_states env req ?n ?states ?res = Some exit"
    by (auto simp add: populateResponse_def Let_def split: option.splits)
  from populate_states_fraction [OF exit assms(2,3)] assms(4)
  have frac: "in_unit_interval (percentage_complete (case exit of Returned r \<Rightarrow> r | Completed r \<Rightarrow> r))"
    by simp
  show ?thesis
  proof (cases exit)
    case (Returned r)
    with False assms(1) exit frac show ?thesis
      by (simp add: populateResponse_def Let_def)
  next
    case (Completed r)
    with False assms(1) exit have ne: "?states \<noteq> []"
      and res1: "percentage_complete res1 = double_div (screw_state (last ?states)) (theta req)"
      by (auto simp add: populateResponse_def Let_def split: if_splits)
    from ne assms(3) have "0 \<le> screw_state (last ?states) \<and> screw_state (last ?states) \<le> theta req"
      by simp
    with res1 assms(2) show ?thesis by (simp add: double_div_in_unit_interval)
  qed
qed

text \<open>
  Claim C8 says that the completion fraction of every response lies in the unit
  interval. The code does not check that \<open>theta\<close> is positive: for a request with
  \<open>theta = 0\<close> the progress dimension is the interval from 0 to 0, a solved path of two
  states has progress 0 throughout, and the fraction is the division of 0 by 0, which is
  not a number.
\<close>

theorem plan_zero_theta_fraction_is_nan:
  "plan example_env example_group example_planner (example_request [] 0) example_response
     = Some (SUCCESS,
             \<lparr>joint_names = [''shoulder'', ''slide''], points = [[1, 0], [1, 0]],
              percentage_complete = NaN, trajectory_is_valid = True, path_length = 1\<rparr>)
   \<and> \<not> in_unit_interval NaN"
  by (simp add: plan_defs example_defs state_positions_def)

end
